theory Spec2Isabelle
  imports Main "HOL-Library.AList" "HOL-Library.Char_ord" "HOL-Library.List_Lexorder"
    "HOL-Library.Product_Lexorder" "HOL-Library.Multiset" "HOL-Library.Sublist"
begin

section \<open>Device discovery (lib/roku-discovery.ts)\<close>

text \<open>
  The record \<^verbatim>\<open>DiscoveredDevice\<close> of the types module. The four required properties are
  strings; the two optional ones are absent (\<open>None\<close>) or hold a string.
\<close>

record DiscoveredDevice =
  ip :: string
  name :: string
  modelName :: string
  serialNumber :: string
  softwareVersion :: "string option"
  deviceType :: "string option"

text \<open>The result of a promise once it has settled, as \<^verbatim>\<open>Promise.allSettled\<close> reports it.\<close>

datatype 'a settled = Fulfilled 'a | Rejected string

text \<open>
  The object spread \<^verbatim>\<open>{ ...existing, ...device }\<close>: every property that \<open>device\<close> has
  replaces the one of \<open>existing\<close>; a property that \<open>device\<close> lacks is kept from \<open>existing\<close>.
\<close>

definition spread :: "DiscoveredDevice \<Rightarrow> DiscoveredDevice \<Rightarrow> DiscoveredDevice" where
  "spread existing device =
     \<lparr> ip = ip device,
       name = name device,
       modelName = modelName device,
       serialNumber = serialNumber device,
       softwareVersion =
         (case softwareVersion device of Some v \<Rightarrow> Some v | None \<Rightarrow> softwareVersion existing),
       deviceType =
         (case deviceType device of Some v \<Rightarrow> Some v | None \<Rightarrow> deviceType existing) \<rparr>"

text \<open>
  A JavaScript \<^verbatim>\<open>Map<string, DiscoveredDevice>\<close> is an association list in insertion order:
  \<^verbatim>\<open>set\<close> on a key that is present replaces the value in place, on a new key it appends
  (\<^const>\<open>AList.update\<close>); \<^verbatim>\<open>get\<close> is \<^const>\<open>map_of\<close>; \<^verbatim>\<open>values()\<close> is \<open>map snd\<close>.
\<close>

type_synonym device_map = "(string \<times> DiscoveredDevice) list"

text \<open>The body of the first \<^verbatim>\<open>forEach\<close> of \<^verbatim>\<open>discoverDevices\<close> (the multicast results).\<close>

definition addSsdpDevice :: "device_map \<Rightarrow> DiscoveredDevice \<Rightarrow> device_map" where
  "addSsdpDevice devices device = AList.update (ip device) device devices"

text \<open>The body of the second \<^verbatim>\<open>forEach\<close> (the subnet scan results).\<close>

definition addNetworkDevice :: "device_map \<Rightarrow> DiscoveredDevice \<Rightarrow> device_map" where
  "addNetworkDevice devices device =
     (case map_of devices (ip device) of
        Some existing \<Rightarrow> AList.update (ip device) (spread existing device) devices
      | None \<Rightarrow> AList.update (ip device) device devices)"

text \<open>
  \<^verbatim>\<open>Array.prototype.sort(compare)\<close>: a stable sort by the comparator, which returns a
  negative number, zero or a positive number. The element \<open>x\<close> goes before the first
  element it does not compare greater than.
\<close>

fun insortBy :: "('a \<Rightarrow> 'a \<Rightarrow> int) \<Rightarrow> 'a \<Rightarrow> 'a list \<Rightarrow> 'a list" where
  "insortBy compare x [] = [x]"
| "insortBy compare x (y # ys) =
     (if compare x y \<le> 0 then x # y # ys else y # insortBy compare x ys)"

definition sortBy :: "('a \<Rightarrow> 'a \<Rightarrow> int) \<Rightarrow> 'a list \<Rightarrow> 'a list" where
  "sortBy compare xs = foldr (insortBy compare) xs []"

text \<open>
  \<^verbatim>\<open>discoverDevices\<close>. Its two inputs are the settled results of \<^verbatim>\<open>discoverViaSsdp()\<close> and
  \<^verbatim>\<open>discoverViaNetworkScan()\<close>; \<open>localeCompare\<close> is the runtime's
  \<^verbatim>\<open>String.prototype.localeCompare\<close>. The function is \<^verbatim>\<open>async\<close> and has no
  \<^verbatim>\<open>throw\<close>: its promise is fulfilled with the sorted array.
\<close>

definition discoverDevices ::
  "(string \<Rightarrow> string \<Rightarrow> int) \<Rightarrow> DiscoveredDevice list settled \<Rightarrow> DiscoveredDevice list settled
     \<Rightarrow> DiscoveredDevice list settled" where
  "discoverDevices localeCompare ssdpDevices networkDevices =
     (let devices0 = [];
          devices1 = (case ssdpDevices of
                        Fulfilled v \<Rightarrow> foldl addSsdpDevice devices0 v
                      | Rejected _ \<Rightarrow> devices0);
          devices2 = (case networkDevices of
                        Fulfilled v \<Rightarrow> foldl addNetworkDevice devices1 v
                      | Rejected _ \<Rightarrow> devices1)
      in Fulfilled (sortBy (\<lambda>a b. localeCompare (name a) (name b)) (map snd devices2)))"

text \<open>\<^verbatim>\<open>String.prototype.includes\<close>: the second string occurs in the first.\<close>

fun includesStr :: "string \<Rightarrow> string \<Rightarrow> bool" where
  "includesStr [] sub = (sub = [])"
| "includesStr (c # cs) sub = (prefix sub (c # cs) \<or> includesStr cs sub)"

text \<open>
  The message handler of \<^verbatim>\<open>discoverViaSsdp\<close>. \<open>matchLocation\<close> is the regular expression
  match \<^verbatim>\<open>response.match(/LOCATION:\s*(.+)/i)\<close> with its group trimmed; \<open>getDeviceInfo\<close> is
  the settled result of \<^verbatim>\<open>getDeviceInfo(location)\<close>, whose rejection the handler catches.
\<close>

definition onMessage ::
  "(string \<Rightarrow> string option) \<Rightarrow> (string \<Rightarrow> DiscoveredDevice option settled)
     \<Rightarrow> device_map \<Rightarrow> string \<Rightarrow> device_map" where
  "onMessage matchLocation getDeviceInfo devices response =
     (if includesStr response ''roku:ecp'' \<and> includesStr response ''LOCATION:'' then
        (case matchLocation response of
           Some location \<Rightarrow>
             (case getDeviceInfo location of
                Fulfilled (Some device) \<Rightarrow> AList.update (ip device) device devices
              | Fulfilled None \<Rightarrow> devices
              | Rejected _ \<Rightarrow> devices)
         | None \<Rightarrow> devices)
      else devices)"

datatype socket_event = Message string | SocketError

fun onSocketEvent ::
  "(string \<Rightarrow> string option) \<Rightarrow> (string \<Rightarrow> DiscoveredDevice option settled)
     \<Rightarrow> device_map \<Rightarrow> socket_event \<Rightarrow> device_map" where
  "onSocketEvent matchLocation getDeviceInfo devices (Message response) =
     onMessage matchLocation getDeviceInfo devices response"
| "onSocketEvent matchLocation getDeviceInfo devices SocketError = devices"

text \<open>
  \<^verbatim>\<open>discoverViaSsdp\<close>. The promise is resolved only by the timer that the callback of
  \<^verbatim>\<open>socket.send\<close> arms, and nothing rejects it: \<open>searchSent\<close> says whether that callback
  ran, \<open>events\<close> are the socket events handled before the discovery window closed. The
  result is \<open>None\<close> while the promise never settles.
\<close>

definition discoverViaSsdp ::
  "(string \<Rightarrow> string option) \<Rightarrow> (string \<Rightarrow> DiscoveredDevice option settled)
     \<Rightarrow> bool \<Rightarrow> socket_event list \<Rightarrow> DiscoveredDevice list settled option" where
  "discoverViaSsdp matchLocation getDeviceInfo searchSent events =
     (if searchSent
      then Some (Fulfilled (map snd (foldl (onSocketEvent matchLocation getDeviceInfo) [] events)))
      else None)"

subsection \<open>The subnet scan\<close>

text \<open>A number inside a template literal: its decimal digits.\<close>

fun digitsOf :: "nat \<Rightarrow> string" where
  "digitsOf n =
     (if n < 10 then [char_of (48 + n)] else digitsOf (n div 10) @ [char_of (48 + n mod 10)])"

text \<open>\<^verbatim>\<open>String.prototype.split\<close> with a one-character separator.\<close>

fun splitOn :: "char \<Rightarrow> string \<Rightarrow> string list" where
  "splitOn sep [] = [[]]"
| "splitOn sep (c # cs) =
     (if c = sep then [] # splitOn sep cs
      else (case splitOn sep cs of p # ps \<Rightarrow> (c # p) # ps | [] \<Rightarrow> [[c]]))"

record NetworkInterfaceInfo =
  family :: string
  internal :: bool
  address :: string

definition commonRanges :: "string list" where
  "commonRanges = [''192.168.1'', ''192.168.0'', ''10.0.0'', ''10.0.1'', ''172.16.0'']"

definition addInterfaceRange :: "string list \<Rightarrow> NetworkInterfaceInfo \<Rightarrow> string list" where
  "addInterfaceRange ranges net =
     (if family net = ''IPv4'' \<and> \<not> internal net then
        (let parts = splitOn (CHR ''.'') (address net) in
         if length parts = 4 then
           (let networkBase = parts ! 0 @ ''.'' @ parts ! 1 @ ''.'' @ parts ! 2 in
            if \<not> List.member ranges networkBase then networkBase # ranges else ranges)
         else ranges)
      else ranges)"

text \<open>
  \<^verbatim>\<open>getNetworkRanges\<close>; the argument is \<^verbatim>\<open>os.networkInterfaces()\<close>, the addresses of every
  interface by name.
\<close>

definition getNetworkRanges :: "(string \<times> NetworkInterfaceInfo list) list \<Rightarrow> string list" where
  "getNetworkRanges interfaces =
     foldl (\<lambda>ranges entry. foldl addInterfaceRange ranges (snd entry)) commonRanges interfaces"

text \<open>The addresses the two nested loops of \<^verbatim>\<open>discoverViaNetworkScan\<close> visit, in order.\<close>

definition candidateIps :: "string list \<Rightarrow> string list" where
  "candidateIps ranges =
     concat (map (\<lambda>range. map (\<lambda>i. range @ ''.'' @ digitsOf i) [1..<255]) ranges)"

text \<open>The slices \<^verbatim>\<open>checkPromises.slice(i, i + chunkSize)\<close> for \<open>i = 0, chunkSize, ...\<close>.\<close>

fun chunksOf :: "nat \<Rightarrow> 'a list \<Rightarrow> 'a list list" where
  "chunksOf chunkSize xs =
     (if xs = [] \<or> chunkSize = 0 then [] else take chunkSize xs # chunksOf chunkSize (drop chunkSize xs))"

text \<open>
  What the scan does to the network, as a trace. \<open>Started ip\<close>: \<^verbatim>\<open>checkIfRokuDevice(ip)\<close> is
  called, which issues its HTTP GET at once and returns the pending promise. \<open>Settled ip\<close>:
  the promise of that probe has settled; \<^verbatim>\<open>await Promise.allSettled(chunk)\<close> returns when
  every probe of the chunk has.
\<close>

datatype scan_event = Started string | Settled string

text \<open>The first loop (lines 112 to 117): no \<^verbatim>\<open>await\<close>, so it runs to its end in one go.\<close>

definition dispatchLoop :: "string list \<Rightarrow> scan_event list" where
  "dispatchLoop ranges = map Started (candidateIps ranges)"

text \<open>The second loop (lines 121 to 130): one \<^verbatim>\<open>await\<close> for each chunk of 50 promises.\<close>

definition awaitLoop :: "string list \<Rightarrow> scan_event list" where
  "awaitLoop ranges = concat (map (map Settled) (chunksOf 50 (candidateIps ranges)))"

definition scanTrace :: "string list \<Rightarrow> scan_event list" where
  "scanTrace ranges = dispatchLoop ranges @ awaitLoop ranges"

text \<open>The requests that are outstanding after a trace: started and not yet settled.\<close>

fun startedIn :: "scan_event list \<Rightarrow> string list" where
  "startedIn [] = []"
| "startedIn (Started a # es) = a # startedIn es"
| "startedIn (Settled a # es) = startedIn es"

fun settledIn :: "scan_event list \<Rightarrow> string list" where
  "settledIn [] = []"
| "settledIn (Started a # es) = settledIn es"
| "settledIn (Settled a # es) = a # settledIn es"

definition outstanding :: "scan_event list \<Rightarrow> nat" where
  "outstanding es = length (startedIn es) - length (settledIn es)"

text \<open>
  The devices \<^verbatim>\<open>discoverViaNetworkScan\<close> returns; \<open>probe ip\<close> is the settled result of
  \<^verbatim>\<open>checkIfRokuDevice(ip)\<close>.
\<close>

fun collectChunk :: "DiscoveredDevice option settled list \<Rightarrow> DiscoveredDevice list" where
  "collectChunk [] = []"
| "collectChunk (Fulfilled (Some device) # results) = device # collectChunk results"
| "collectChunk (Fulfilled None # results) = collectChunk results"
| "collectChunk (Rejected e # results) = collectChunk results"

definition discoverViaNetworkScan ::
  "string list \<Rightarrow> (string \<Rightarrow> DiscoveredDevice option settled) \<Rightarrow> DiscoveredDevice list settled" where
  "discoverViaNetworkScan ranges probe =
     Fulfilled (concat (map (\<lambda>chunk. collectChunk (map probe chunk))
                            (chunksOf 50 (candidateIps ranges))))"

text \<open>The addresses a settled strategy reports: none when it was rejected.\<close>

definition foundIps :: "DiscoveredDevice list settled \<Rightarrow> string set" where
  "foundIps r = (case r of Fulfilled v \<Rightarrow> set (map ip v) | Rejected e \<Rightarrow> {})"

subsection \<open>Orders on names\<close>

text \<open>
  The default collation of \<^verbatim>\<open>localeCompare\<close> on words of ASCII letters: the letters are
  compared without regard to case first; words that differ in case only are told apart
  after that, a lower-case letter before its capital.
\<close>

definition isUpper :: "char \<Rightarrow> bool" where
  "isUpper c = (65 \<le> (of_char c :: nat) \<and> (of_char c :: nat) \<le> 90)"

definition toLower :: "char \<Rightarrow> nat" where
  "toLower c = (if isUpper c then of_char c + 32 else of_char c)"

definition collationKey :: "string \<Rightarrow> nat list \<times> bool list" where
  "collationKey s = (map toLower s, map isUpper s)"

definition localeCompareLetters :: "string \<Rightarrow> string \<Rightarrow> int" where
  "localeCompareLetters a b =
     (if collationKey a < collationKey b then - 1
      else if collationKey b < collationKey a then 1 else 0)"

text \<open>The order of the code points: the comparison \<^verbatim>\<open>a < b\<close> of two strings.\<close>

definition codePointLe :: "string \<Rightarrow> string \<Rightarrow> bool" where
  "codePointLe a b = (map (of_char :: char \<Rightarrow> nat) a \<le> map of_char b)"

section \<open>The device API (lib/roku-api.ts)\<close>

record RokuAPI =
  baseUrl :: string
  username :: string
  password :: string

text \<open>The constructor.\<close>

definition newRokuAPI :: "string \<Rightarrow> string \<Rightarrow> RokuAPI" where
  "newRokuAPI host secret =
     \<lparr> baseUrl = ''http://'' @ host, username = ''rokudev'', password = secret \<rparr>"

text \<open>
  A request as axios sends it: the verb, the URL and the \<^verbatim>\<open>auth\<close> option (user and
  password), absent unless the call passes it. A device answers with a status or the
  connection fails.
\<close>

record http_request =
  verb :: string
  url :: string
  auth :: "(string \<times> string) option"

datatype http_outcome = NetworkError string | Response nat

text \<open>The request of \<^verbatim>\<open>testConnection\<close>: \<^verbatim>\<open>axios.get(url)\<close> with no options.\<close>

definition testConnectionRequest :: "RokuAPI \<Rightarrow> http_request" where
  "testConnectionRequest api =
     \<lparr> verb = ''GET'', url = baseUrl api @ '':8060/query/device-info'', auth = None \<rparr>"

text \<open>
  \<^verbatim>\<open>testConnection\<close>: axios rejects on a connection error and on a status outside 200 to
  299 (its default \<^verbatim>\<open>validateStatus\<close>); the \<^verbatim>\<open>catch\<close> turns every rejection into false.
\<close>

definition testConnection :: "(http_request \<Rightarrow> http_outcome) \<Rightarrow> RokuAPI \<Rightarrow> bool" where
  "testConnection http api =
     (case http (testConnectionRequest api) of
        NetworkError e \<Rightarrow> False
      | Response status \<Rightarrow> 200 \<le> status \<and> status < 300)"

text \<open>
  The requests of the sibling methods \<^verbatim>\<open>rekeyDevice\<close> and \<^verbatim>\<open>createPackage\<close>, which pass
  \<^verbatim>\<open>auth: this.auth\<close>.
\<close>

definition rekeyRequest :: "RokuAPI \<Rightarrow> http_request" where
  "rekeyRequest api =
     \<lparr> verb = ''POST'', url = baseUrl api @ ''/plugin_install'',
       auth = Some (username api, password api) \<rparr>"

definition createPackageRequest :: "RokuAPI \<Rightarrow> http_request" where
  "createPackageRequest api =
     \<lparr> verb = ''POST'', url = baseUrl api @ ''/plugin_package'',
       auth = Some (username api, password api) \<rparr>"

text \<open>
  A device in developer mode with the developer password \<open>secret\<close>: the control
  protocol on port 8060 answers anyone; every other request needs the credentials and
  gets 401 without them.
\<close>

definition developerDevice :: "string \<Rightarrow> string \<Rightarrow> http_request \<Rightarrow> http_outcome" where
  "developerDevice host secret request =
     (if url request = ''http://'' @ host @ '':8060/query/device-info'' then Response 200
      else if auth request = Some (''rokudev'', secret) then Response 200
      else Response 401)"

section \<open>The build task runner (utils/vscode-tasks.ts)\<close>

record VSCodeTask =
  label :: string
  kind :: string
  command :: "string option"
  script :: "string option"
  args :: "string list option"

text \<open>A string property in a condition: defined and not empty.\<close>

definition truthy :: "string option \<Rightarrow> bool" where
  "truthy v = (case v of None \<Rightarrow> False | Some s \<Rightarrow> s \<noteq> [])"

text \<open>The command and arguments \<^verbatim>\<open>executeTask\<close> spawns; \<open>None\<close> where it rejects at once.\<close>

definition resolveCommand :: "VSCodeTask \<Rightarrow> (string \<times> string list) option" where
  "resolveCommand task =
     (if kind task = ''npm'' \<and> truthy (script task) then
        Some (''npm'', [''run'', the (script task)])
      else if kind task = ''shell'' \<and> truthy (command task) then
        (let parts = splitOn (CHR '' '') (the (command task)) in
         Some (hd parts, tl parts @ (case args task of Some extra \<Rightarrow> extra | None \<Rightarrow> [])))
      else if truthy (command task) then
        Some (the (command task), (case args task of Some extra \<Rightarrow> extra | None \<Rightarrow> []))
      else None)"

datatype signal = SIGTERM | SIGKILL

text \<open>
  What happens to the spawned child, in order: the timeout elapses, the five seconds
  after it elapse, the child closes with an exit code (none when a signal ended it), or
  spawning fails.
\<close>

datatype child_event = TimeoutElapsed | GraceElapsed | Close "nat option" | SpawnError string

text \<open>
  The state of one run: whether the child has exited, the flag \<^verbatim>\<open>child.killed\<close>, the
  signals delivered, the two timers, and the promise (\<open>None\<close> while it is pending).
\<close>

record task_run =
  exited :: bool
  killed :: bool
  signals :: "signal list"
  timeoutArmed :: bool
  graceArmed :: bool
  outcome :: "unit settled option"

text \<open>
  \<^verbatim>\<open>child.kill(signal)\<close>: the signal is delivered while the child exists, and delivering
  it sets \<^verbatim>\<open>child.killed\<close>, whether or not the child then exits.
\<close>

definition kill :: "signal \<Rightarrow> task_run \<Rightarrow> task_run" where
  "kill sig r = (if exited r then r else r\<lparr> killed := True, signals := signals r @ [sig] \<rparr>)"

text \<open>A promise settles once: a later \<^verbatim>\<open>resolve\<close> or \<^verbatim>\<open>reject\<close> changes nothing.\<close>

definition settle :: "unit settled \<Rightarrow> task_run \<Rightarrow> task_run" where
  "settle v r = (case outcome r of None \<Rightarrow> r\<lparr> outcome := Some v \<rparr> | Some w \<Rightarrow> r)"

text \<open>The \<^verbatim>\<open>close\<close> handler's verdict.\<close>

definition closeResult :: "string \<Rightarrow> nat option \<Rightarrow> unit settled" where
  "closeResult taskLabel code =
     (case code of
        None \<Rightarrow> Rejected (''Task '' @ [CHR 0x22] @ taskLabel @ [CHR 0x22] @ '' was terminated'')
      | Some n \<Rightarrow>
          if n = 0 then Fulfilled ()
          else Rejected (''Task '' @ [CHR 0x22] @ taskLabel @ [CHR 0x22]
                           @ '' failed with exit code '' @ digitsOf n))"

fun onChildEvent :: "string \<Rightarrow> task_run \<Rightarrow> child_event \<Rightarrow> task_run" where
  "onChildEvent taskLabel r TimeoutElapsed =
     (if timeoutArmed r
      then (kill SIGTERM r)\<lparr> timeoutArmed := False, graceArmed := True \<rparr>
      else r)"
| "onChildEvent taskLabel r GraceElapsed =
     (if graceArmed r
      then (if \<not> killed r then kill SIGKILL r else r)\<lparr> graceArmed := False \<rparr>
      else r)"
| "onChildEvent taskLabel r (Close code) =
     settle (closeResult taskLabel code) (r\<lparr> exited := True, timeoutArmed := False \<rparr>)"
| "onChildEvent taskLabel r (SpawnError err) =
     settle (Rejected err) (r\<lparr> timeoutArmed := False \<rparr>)"

text \<open>\<^verbatim>\<open>executeTask\<close>; the timer is armed when \<^verbatim>\<open>timeout\<close> is given and not zero.\<close>

definition executeTask :: "VSCodeTask \<Rightarrow> nat option \<Rightarrow> child_event list \<Rightarrow> task_run" where
  "executeTask task timeout events =
     (case resolveCommand task of
        None \<Rightarrow>
          \<lparr> exited = False, killed = False, signals = [], timeoutArmed = False,
            graceArmed = False,
            outcome = Some (Rejected (''Cannot determine command for task: '' @ label task)) \<rparr>
      | Some cmd \<Rightarrow>
          foldl (onChildEvent (label task))
            \<lparr> exited = False, killed = False, signals = [],
              timeoutArmed = (case timeout of None \<Rightarrow> False | Some ms \<Rightarrow> ms \<noteq> 0),
              graceArmed = False, outcome = None \<rparr>
            events)"

text \<open>
  The caller in the generate command (lines 265 to 279) prints its advice for a timed-out
  build when the message of the rejection contains \<^verbatim>\<open>timed out\<close>.
\<close>

definition printsTimeoutTips :: "unit settled \<Rightarrow> bool" where
  "printsTimeoutTips r =
     (case r of Fulfilled u \<Rightarrow> False | Rejected message \<Rightarrow> includesStr message ''timed out'')"

section \<open>Project validation (lib/roku-deploy.ts)\<close>

record validation =
  valid :: bool
  errors :: "string list"

text \<open>
  \<^verbatim>\<open>validateProject\<close>; \<open>join\<close> is \<^verbatim>\<open>path.join\<close> and \<open>existsSync\<close> is \<^verbatim>\<open>fs.existsSync\<close>.
\<close>

definition validateProject ::
  "(string \<Rightarrow> string \<Rightarrow> string) \<Rightarrow> (string \<Rightarrow> bool) \<Rightarrow> string \<Rightarrow> validation" where
  "validateProject join existsSync rootDir =
     (let errors0 = [];
          manifestPath = join rootDir ''manifest'';
          errors1 = (if \<not> existsSync manifestPath
                     then errors0 @ [''Missing required file: manifest'']
                     else errors0);
          sourcePath = join rootDir ''source'';
          errors2 = (if \<not> existsSync sourcePath
                     then errors1 @ [''Missing required directory: source'']
                     else (let mainPath = join sourcePath ''main.brs'' in
                           if \<not> existsSync mainPath
                           then errors1 @ [''Missing required file: source/main.brs'']
                           else errors1))
      in \<lparr> valid = (length errors2 = 0), errors = errors2 \<rparr>)"

section \<open>The generate command (commands/generate.ts)\<close>

subsection \<open>Files\<close>

record file_entry =
  content :: string
  mtime :: nat

text \<open>
  The files on the disk, each under the one location it has. A path is a spelling of a
  location: \<open>resolve\<close> is the operating system's resolution of a path, and two paths name
  the same file when they resolve alike (\<^verbatim>\<open>out/demo.pkg\<close> and \<^verbatim>\<open>./out/demo.pkg\<close>).
\<close>

type_synonym filesystem = "string \<Rightarrow> file_entry option"

datatype fs_error = ENOENT string

text \<open>
  \<^verbatim>\<open>fs.copyFileSync\<close> at the time \<open>now\<close>: it fails when the source does not exist, does
  nothing when source and destination are the same file, and writes the destination
  otherwise.
\<close>

definition copyFileSync ::
  "(string \<Rightarrow> string) \<Rightarrow> nat \<Rightarrow> filesystem \<Rightarrow> string \<Rightarrow> string \<Rightarrow> fs_error + filesystem" where
  "copyFileSync resolve now files src dest =
     (case files (resolve src) of
        None \<Rightarrow> Inl (ENOENT src)
      | Some f \<Rightarrow>
          if resolve src = resolve dest then Inr files
          else Inr (files(resolve dest \<mapsto> \<lparr> content = content f, mtime = now \<rparr>)))"

text \<open>\<^verbatim>\<open>fs.unlinkSync\<close>: the file is gone, under every path that names it.\<close>

definition unlinkSync :: "(string \<Rightarrow> string) \<Rightarrow> filesystem \<Rightarrow> string \<Rightarrow> fs_error + filesystem" where
  "unlinkSync resolve files p =
     (case files (resolve p) of
        None \<Rightarrow> Inl (ENOENT p)
      | Some f \<Rightarrow> Inr (files(resolve p := None)))"

text \<open>
  Step 5 of the command (lines 477 to 490); \<open>dirname\<close> is \<^verbatim>\<open>path.dirname\<close>. The two
  comparisons are comparisons of strings. The result is the files and the value of
  \<^verbatim>\<open>packagePath\<close> afterwards, or the exception thrown.
\<close>

definition relocate ::
  "(string \<Rightarrow> string) \<Rightarrow> (string \<Rightarrow> string) \<Rightarrow> nat \<Rightarrow> filesystem \<Rightarrow> string \<Rightarrow> string
     \<Rightarrow> fs_error + (filesystem \<times> string)" where
  "relocate dirname resolve now files packagePath outputLocation =
     (if packagePath \<noteq> [] \<and> packagePath \<noteq> outputLocation then
        (case copyFileSync resolve now files packagePath outputLocation of
           Inl e \<Rightarrow> Inl e
         | Inr files1 \<Rightarrow>
             if dirname packagePath \<noteq> dirname outputLocation then
               (case unlinkSync resolve files1 packagePath of
                  Inl e \<Rightarrow> Inl e
                | Inr files2 \<Rightarrow> Inr (files2, outputLocation))
             else Inr (files1, outputLocation))
      else Inr (files, packagePath))"

text \<open>
  The resolution of a path against the working directory \<open>cwd\<close>, for plain paths: an
  absolute path, or a relative one with or without a leading \<^verbatim>\<open>./\<close>.
\<close>

definition resolveFrom :: "string \<Rightarrow> string \<Rightarrow> string" where
  "resolveFrom cwd p =
     (if take 1 p = ''/'' then p
      else if take 2 p = ''./'' then cwd @ ''/'' @ drop 2 p
      else cwd @ ''/'' @ p)"

text \<open>\<^verbatim>\<open>path.dirname\<close> of the POSIX flavour, for concrete paths.\<close>

definition posixDirname :: "string \<Rightarrow> string" where
  "posixDirname p =
     (if p = [] then ''.''
      else
        (let hasRoot = (hd p = CHR ''/'');
             afterTrailing = dropWhile (\<lambda>c. c = CHR ''/'') (rev (tl p));
             upToSlash = dropWhile (\<lambda>c. c \<noteq> CHR ''/'') afterTrailing
         in if upToSlash = [] then (if hasRoot then ''/'' else ''.'')
            else if hasRoot \<and> length upToSlash = 1 then ''//''
            else take (length upToSlash) p))"

subsection \<open>The deploy stage\<close>

definition deploymentTimeout :: "bool \<Rightarrow> nat" where
  "deploymentTimeout skipBuild = (if skipBuild then 180000 else 300000)"

text \<open>
  \<^verbatim>\<open>Promise.race\<close> of the deployment and the timer. \<open>deploy\<close> says after how many
  milliseconds \<^verbatim>\<open>deployAndSignPackage\<close> settles and how, \<open>None\<close> when it never does. It wins
  the race when it settles before the timer fires and loses when it settles later; when
  both fall on the same millisecond either may come first, and \<open>deployWinsTie\<close> says
  which did.
\<close>

definition raceDeploy ::
  "nat \<Rightarrow> bool \<Rightarrow> (nat \<times> string settled) option \<Rightarrow> string settled" where
  "raceDeploy timeout deployWinsTie deploy =
     (case deploy of
        None \<Rightarrow> Rejected ''Deployment timed out after 5 minutes''
      | Some (t, r) \<Rightarrow>
          if t < timeout \<or> (t = timeout \<and> deployWinsTie) then r
          else Rejected ''Deployment timed out after 5 minutes'')"

text \<open>
  How a stage ends: with the path of the package, with \<^verbatim>\<open>process.exit(code)\<close>, with a
  plain \<^verbatim>\<open>return\<close> from the command, or with an exception for the outer \<^verbatim>\<open>catch\<close>.
\<close>

datatype stage_end = PackagePath string | ProcessExit nat | Returned | Thrown string

record deploy_stage =
  stageEnd :: stage_end
  fallbackOffers :: nat
  createPackageCalls :: nat

text \<open>
  Step 4 (lines 386 to 475). \<open>skipBuild\<close> and \<open>packageOnly\<close> are the options
  \<^verbatim>\<open>--skip-build\<close> and \<^verbatim>\<open>--package-only\<close>; \<open>trySimple\<close> is the answer to the confirmation
  prompt and \<open>createPackage\<close> the settled result of \<^verbatim>\<open>deployManager.createPackage\<close>, each
  used only where the code asks for it.
\<close>

definition deployStage ::
  "bool \<Rightarrow> bool \<Rightarrow> bool \<Rightarrow> (nat \<times> string settled) option \<Rightarrow> bool \<Rightarrow> string settled
     \<Rightarrow> deploy_stage" where
  "deployStage skipBuild packageOnly deployWinsTie deploy trySimple createPackage =
     (if packageOnly then
        (case createPackage of
           Fulfilled p \<Rightarrow> \<lparr> stageEnd = PackagePath p, fallbackOffers = 0, createPackageCalls = 1 \<rparr>
         | Rejected e \<Rightarrow> \<lparr> stageEnd = Returned, fallbackOffers = 0, createPackageCalls = 1 \<rparr>)
      else
        (case raceDeploy (deploymentTimeout skipBuild) deployWinsTie deploy of
           Fulfilled p \<Rightarrow> \<lparr> stageEnd = PackagePath p, fallbackOffers = 0, createPackageCalls = 0 \<rparr>
         | Rejected message \<Rightarrow>
             if includesStr message ''timed out'' then
               (if trySimple then
                  (case createPackage of
                     Fulfilled p \<Rightarrow>
                       \<lparr> stageEnd = PackagePath p, fallbackOffers = 1, createPackageCalls = 1 \<rparr>
                   | Rejected e \<Rightarrow>
                       \<lparr> stageEnd = Thrown e, fallbackOffers = 1, createPackageCalls = 1 \<rparr>)
                else \<lparr> stageEnd = ProcessExit 1, fallbackOffers = 1, createPackageCalls = 0 \<rparr>)
             else \<lparr> stageEnd = Thrown message, fallbackOffers = 0, createPackageCalls = 0 \<rparr>))"

text \<open>
  How the command ends: \<^verbatim>\<open>process.exit(code)\<close>, or the action returns (after a
  \<^verbatim>\<open>return\<close>, or after the outer \<^verbatim>\<open>catch\<close> has printed the error).
\<close>

datatype run_end = Exit nat | ActionReturned

text \<open>
  Steps 4 and 5 and the end of the command (lines 371 to 552): the deploy stage, the
  relocation, \<^verbatim>\<open>fs.statSync\<close> of the output, and \<^verbatim>\<open>process.exit(0)\<close>. \<open>files\<close> are the
  files when the stage has finished.
\<close>

definition deployAndRelocate ::
  "(string \<Rightarrow> string) \<Rightarrow> (string \<Rightarrow> string) \<Rightarrow> nat \<Rightarrow> filesystem \<Rightarrow> string \<Rightarrow> bool \<Rightarrow> bool
     \<Rightarrow> bool \<Rightarrow> (nat \<times> string settled) option \<Rightarrow> bool \<Rightarrow> string settled
     \<Rightarrow> run_end \<times> filesystem" where
  "deployAndRelocate dirname resolve now files outputLocation skipBuild packageOnly
       deployWinsTie deploy trySimple createPackage =
     (case stageEnd (deployStage skipBuild packageOnly deployWinsTie deploy trySimple
             createPackage) of
        ProcessExit code \<Rightarrow> (Exit code, files)
      | Returned \<Rightarrow> (ActionReturned, files)
      | Thrown e \<Rightarrow> (ActionReturned, files)
      | PackagePath packagePath \<Rightarrow>
          (case relocate dirname resolve now files packagePath outputLocation of
             Inl e \<Rightarrow> (ActionReturned, files)
           | Inr (files1, p) \<Rightarrow>
               (case files1 (resolve outputLocation) of
                  None \<Rightarrow> (ActionReturned, files1)
                | Some f \<Rightarrow> (Exit 0, files1))))"

section \<open>Auxiliary notions\<close>

text \<open>In a device map every record is stored under its own address.\<close>

definition keyed :: "device_map \<Rightarrow> bool" where
  "keyed m = (map ip (map snd m) = map fst m)"

text \<open>
  A comparator that \<^verbatim>\<open>Array.prototype.sort\<close> can sort by: any two elements compare one
  way or the other, and the comparison is transitive.
\<close>

definition consistentComparator :: "('a \<Rightarrow> 'a \<Rightarrow> int) \<Rightarrow> bool" where
  "consistentComparator c =
     ((\<forall>x y. c x y \<le> 0 \<or> c y x \<le> 0) \<and> (\<forall>x y z. c x y \<le> 0 \<longrightarrow> c y z \<le> 0 \<longrightarrow> c x z \<le> 0))"

subsection \<open>Example devices\<close>

definition bedroom :: DiscoveredDevice where
  "bedroom = \<lparr> ip = ''192.168.1.20'', name = ''bedroom'', modelName = ''Roku Ultra'',
      serialNumber = ''X004'', softwareVersion = Some ''11.5'', deviceType = None \<rparr>"

definition kitchen :: DiscoveredDevice where
  "kitchen = \<lparr> ip = ''192.168.1.21'', name = ''Kitchen'', modelName = ''Roku Express'',
      serialNumber = ''X005'', softwareVersion = None, deviceType = Some ''box'' \<rparr>"

definition bedroomScan :: DiscoveredDevice where
  "bedroomScan = \<lparr> ip = ''192.168.1.20'', name = ''Bedroom TV'', modelName = ''Roku Ultra'',
      serialNumber = ''X004'', softwareVersion = None, deviceType = Some ''tv'' \<rparr>"

subsection \<open>Example task, paths and files\<close>

definition buildTask :: VSCodeTask where
  "buildTask = \<lparr> label = ''build'', kind = ''shell'', command = Some ''make all'',
      script = None, args = None \<rparr>"

text \<open>\<^verbatim>\<open>path.join\<close> of a normalised directory and a plain name.\<close>

definition joinPosix :: "string \<Rightarrow> string \<Rightarrow> string" where
  "joinPosix a b = a @ ''/'' @ b"

text \<open>\<^verbatim>\<open>fs.existsSync\<close> on a disk that holds the listed paths and nothing else.\<close>

definition existsIn :: "string list \<Rightarrow> string \<Rightarrow> bool" where
  "existsIn paths p = List.member paths p"

definition stagedFiles :: filesystem where
  "stagedFiles = Map.empty(''/tmp/staged/demo.pkg'' \<mapsto> \<lparr> content = ''signed'', mtime = 7 \<rparr>)"

text \<open>The package as \<^verbatim>\<open>createPackage\<close> leaves it under \<^verbatim>\<open>./out\<close> of the directory \<^verbatim>\<open>/work\<close>.\<close>

definition packagedFiles :: filesystem where
  "packagedFiles = Map.empty(''/work/out/demo.pkg'' \<mapsto> \<lparr> content = ''signed'', mtime = 7 \<rparr>)"

section \<open>Facts about the sort and the merge\<close>

declare digitsOf.simps [simp del]

declare chunksOf.simps [simp del]

lemma mset_insortBy: "mset (insortBy c x xs) = add_mset x (mset xs)"
  by (induction xs) auto

lemma mset_sortBy: "mset (sortBy c xs) = mset xs"
  by (induction xs) (auto simp: sortBy_def mset_insortBy)

lemma set_sortBy: "set (sortBy c xs) = set xs"
  using mset_sortBy [of c xs] by (metis set_mset_mset)

lemma sortBy_Nil: "sortBy c [] = []"
  by (simp add: sortBy_def)

lemma mset_map_sortBy: "mset (map f (sortBy c xs)) = mset (map f xs)"
  using mset_sortBy [of c xs] by (metis mset_map)

lemma distinct_map_sortBy: "distinct (map f (sortBy c xs)) = distinct (map f xs)"
  using mset_map_sortBy [of f c xs] by (metis mset_eq_imp_distinct_iff)

lemma keys_addSsdp: "fst ` set (foldl addSsdpDevice m A) = fst ` set m \<union> ip ` set A"
  by (induction A arbitrary: m) (auto simp: addSsdpDevice_def dom_update)

lemma keys_addNetworkDevice1: "fst ` set (addNetworkDevice m b) = insert (ip b) (fst ` set m)"
  by (simp add: addNetworkDevice_def dom_update split: option.splits)

lemma keys_addNetwork: "fst ` set (foldl addNetworkDevice m B) = fst ` set m \<union> ip ` set B"
  by (induction B arbitrary: m) (auto simp: keys_addNetworkDevice1)

lemma distinct_addSsdp: "distinct (map fst m) \<Longrightarrow> distinct (map fst (foldl addSsdpDevice m A))"
  by (induction A arbitrary: m) (auto simp: addSsdpDevice_def distinct_update)

lemma distinct_addNetwork: "distinct (map fst m) \<Longrightarrow> distinct (map fst (foldl addNetworkDevice m B))"
  by (induction B arbitrary: m) (auto simp: addNetworkDevice_def distinct_update split: option.splits)

lemma keyed_update: "keyed m \<Longrightarrow> ip v = k \<Longrightarrow> keyed (AList.update k v m)"
  by (induction m) (auto simp: keyed_def)

lemma ip_spread: "ip (spread e d) = ip d"
  by (simp add: spread_def)

lemma keyed_addSsdp: "keyed m \<Longrightarrow> keyed (foldl addSsdpDevice m A)"
  by (induction A arbitrary: m) (auto simp: addSsdpDevice_def keyed_update)

lemma keyed_addNetwork: "keyed m \<Longrightarrow> keyed (foldl addNetworkDevice m B)"
  by (induction B arbitrary: m) (auto simp: addNetworkDevice_def keyed_update ip_spread split: option.splits)

lemma lookup_addSsdp_other:
  "k \<notin> ip ` set A \<Longrightarrow> map_of (foldl addSsdpDevice m A) k = map_of m k"
  by (induction A arbitrary: m) (auto simp: addSsdpDevice_def update_conv')

lemma lookup_addSsdp:
  "distinct (map ip A) \<Longrightarrow> a \<in> set A \<Longrightarrow> map_of (foldl addSsdpDevice m A) (ip a) = Some a"
proof (induction A arbitrary: m)
  case Nil
  then show ?case by simp
next
  case (Cons x A)
  show ?case
  proof (cases "a = x")
    case True
    with Cons.prems have "ip a \<notin> ip ` set A" by auto
    then show ?thesis using True
      by (simp add: lookup_addSsdp_other) (simp add: addSsdpDevice_def update_conv')
  next
    case False
    with Cons show ?thesis by auto
  qed
qed

lemma lookup_addNetwork_other:
  "k \<notin> ip ` set B \<Longrightarrow> map_of (foldl addNetworkDevice m B) k = map_of m k"
  by (induction B arbitrary: m) (auto simp: addNetworkDevice_def update_conv' split: option.splits)

lemma lookup_addNetwork:
  "distinct (map ip B) \<Longrightarrow> b \<in> set B \<Longrightarrow>
   map_of (foldl addNetworkDevice m B) (ip b) =
     Some (case map_of m (ip b) of Some e \<Rightarrow> spread e b | None \<Rightarrow> b)"
proof (induction B arbitrary: m)
  case Nil
  then show ?case by simp
next
  case (Cons x B)
  show ?case
  proof (cases "b = x")
    case True
    with Cons.prems have "ip b \<notin> ip ` set B" by auto
    then show ?thesis using True
      by (simp add: lookup_addNetwork_other)
         (simp add: addNetworkDevice_def update_conv' split: option.splits)
  next
    case False
    with Cons.prems have b: "b \<in> set B" and d: "distinct (map ip B)"
      by auto
    from Cons.prems b have ne: "ip b \<noteq> ip x"
      by (metis distinct.simps(2) image_eqI list.simps(9) set_map)
    have "map_of (addNetworkDevice m x) (ip b) = map_of m (ip b)"
      using ne by (simp add: addNetworkDevice_def update_conv' split: option.splits)
    with Cons.IH [OF d b, of "addNetworkDevice m x"] show ?thesis by simp
  qed
qed

lemma values_of_lookup: "map_of m k = Some v \<Longrightarrow> v \<in> set (map snd m)"
  by (drule map_of_SomeD) force

lemma keyed_Nil: "keyed []"
  by (simp add: keyed_def)

lemma discoverDevices_Fulfilled:
  "discoverDevices lc (Fulfilled A) (Fulfilled B) =
     Fulfilled (sortBy (\<lambda>a b. lc (name a) (name b))
       (map snd (foldl addNetworkDevice (foldl addSsdpDevice [] A) B)))"
  by (simp add: discoverDevices_def)

lemma merged_ips:
  "map ip (map snd (foldl addNetworkDevice (foldl addSsdpDevice [] A) B)) =
   map fst (foldl addNetworkDevice (foldl addSsdpDevice [] A) B)"
  using keyed_addNetwork [OF keyed_addSsdp [OF keyed_Nil]] by (simp add: keyed_def)

lemma set_insortBy: "set (insortBy c x xs) = insert x (set xs)"
  by (induction xs) auto

lemma sorted_insortBy:
  assumes "consistentComparator c" and "sorted_wrt (\<lambda>x y. c x y \<le> 0) xs"
  shows "sorted_wrt (\<lambda>x y. c x y \<le> 0) (insortBy c x xs)"
  using assms(2)
proof (induction xs)
  case Nil
  then show ?case by simp
next
  case (Cons y ys)
  from assms(1) have total: "\<And>u v. c u v \<le> 0 \<or> c v u \<le> 0"
    and trans: "\<And>u v w. c u v \<le> 0 \<Longrightarrow> c v w \<le> 0 \<Longrightarrow> c u w \<le> 0"
    unfolding consistentComparator_def by blast+
  show ?case
  proof (cases "c x y \<le> 0")
    case True
    with Cons.prems trans show ?thesis by auto
  next
    case False
    with total [of x y] have "c y x \<le> 0" by simp
    with False Cons show ?thesis by (auto simp: set_insortBy)
  qed
qed

lemma sorted_sortBy:
  "consistentComparator c \<Longrightarrow> sorted_wrt (\<lambda>x y. c x y \<le> 0) (sortBy c xs)"
  by (induction xs) (auto simp: sortBy_def sorted_insortBy)

lemma consistent_on_names:
  "consistentComparator lc \<Longrightarrow> consistentComparator (\<lambda>a b. lc (name a) (name b))"
  unfolding consistentComparator_def by blast

lemma discoverDevices_result:
  "\<exists>M. discoverDevices lc s n = Fulfilled (sortBy (\<lambda>a b. lc (name a) (name b)) M)"
  by (simp add: discoverDevices_def Let_def) (rule exI, rule refl)

lemma localeCompareLetters_le:
  "localeCompareLetters a b \<le> 0 \<longleftrightarrow> collationKey a \<le> collationKey b"
  by (auto simp: localeCompareLetters_def)

lemma consistent_localeCompareLetters: "consistentComparator localeCompareLetters"
  unfolding consistentComparator_def localeCompareLetters_le
  by (meson linear order_trans)

section \<open>Facts about the addresses found\<close>

lemma collectChunk_all_rejected: "collectChunk (map (\<lambda>a. Rejected e) xs) = []"
  by (induction xs) auto

lemma ips_merged:
  "set (map ip (map snd (foldl addNetworkDevice (foldl addSsdpDevice [] A) B)))
     = set (map ip A) \<union> set (map ip B)"
  unfolding merged_ips by (simp add: keys_addNetwork keys_addSsdp)

lemma keyed_ips: "keyed m \<Longrightarrow> set (map ip (map snd m)) = fst ` set m"
  by (simp add: keyed_def)

lemma set_map_sortBy: "set (map f (sortBy c xs)) = set (map f xs)"
  using mset_map_sortBy [of f c xs] by (metis set_mset_mset)

lemma result_ips: "keyed M \<Longrightarrow> set (map ip (sortBy c (map snd M))) = fst ` set M"
  using set_map_sortBy [of ip c "map snd M"] keyed_ips [of M] by simp

lemma discoverDevices_ips:
  "\<exists>R. discoverDevices localeCompare ssdpDevices networkDevices = Fulfilled R
        \<and> set (map ip R) = foundIps ssdpDevices \<union> foundIps networkDevices"
proof -
  define M where "M =
    (case networkDevices of
       Fulfilled v \<Rightarrow>
         foldl addNetworkDevice
           (case ssdpDevices of Fulfilled w \<Rightarrow> foldl addSsdpDevice [] w | Rejected e \<Rightarrow> []) v
     | Rejected e \<Rightarrow>
         (case ssdpDevices of Fulfilled w \<Rightarrow> foldl addSsdpDevice [] w | Rejected e \<Rightarrow> []))"
  have res: "discoverDevices localeCompare ssdpDevices networkDevices
      = Fulfilled (sortBy (\<lambda>a b. localeCompare (name a) (name b)) (map snd M))"
    by (simp add: discoverDevices_def M_def Let_def)
  have k: "keyed M"
    unfolding M_def
    by (auto split: settled.splits intro!: keyed_addNetwork keyed_addSsdp keyed_Nil)
  have "fst ` set M = foundIps ssdpDevices \<union> foundIps networkDevices"
    unfolding M_def foundIps_def
    by (auto split: settled.splits simp: keys_addNetwork keys_addSsdp)
  with result_ips [OF k] res show ?thesis by simp
qed

section \<open>Facts about the subnet scan\<close>

lemma startedIn_map_Started: "startedIn (map Started xs) = xs"
  by (induction xs) auto

lemma settledIn_map_Started: "settledIn (map Started xs) = []"
  by (induction xs) auto

lemma length_candidateIps: "length (candidateIps ranges) = 254 * length ranges"
  by (induction ranges) (auto simp: candidateIps_def)

lemma length_addInterfaceRange: "length ranges \<le> length (addInterfaceRange ranges net)"
  by (simp add: addInterfaceRange_def Let_def)

lemma length_addInterfaceRanges: "length ranges \<le> length (foldl addInterfaceRange ranges nets)"
proof (induction nets arbitrary: ranges)
  case Nil
  then show ?case by simp
next
  case (Cons n nets)
  from length_addInterfaceRange [of ranges n] Cons [of "addInterfaceRange ranges n"]
  show ?case by simp
qed

lemma length_interfaces:
  "length ranges \<le> length (foldl (\<lambda>rs entry. foldl addInterfaceRange rs (snd entry)) ranges interfaces)"
proof (induction interfaces arbitrary: ranges)
  case Nil
  then show ?case by simp
next
  case (Cons e es)
  from length_addInterfaceRanges [of ranges "snd e"] Cons [of "foldl addInterfaceRange ranges (snd e)"]
  show ?case by simp
qed

lemma length_getNetworkRanges: "5 \<le> length (getNetworkRanges interfaces)"
  using length_interfaces [of commonRanges interfaces]
  by (simp add: getNetworkRanges_def commonRanges_def)

lemma outstanding_dispatchLoop: "outstanding (dispatchLoop ranges) = 254 * length ranges"
  by (simp add: outstanding_def dispatchLoop_def startedIn_map_Started settledIn_map_Started
      length_candidateIps)

section \<open>Discovery: the claims\<close>

text \<open>
  Claim C1. When both strategies are fulfilled, with the lists \<open>A\<close> (multicast) and \<open>B\<close>
  (subnet scan), \<^verbatim>\<open>discoverDevices\<close> returns one record for each address of \<open>A\<close> or \<open>B\<close> and
  no other. Where each list names an address once: a device found by one strategy only
  is returned as it was found; for an address found by both, the returned record has
  every property that the record of \<open>B\<close> has, with the value of \<open>B\<close>, and the properties
  that the record of \<open>B\<close> lacks, with the value of \<open>A\<close>.
\<close>

theorem discoverDevices_merge:
  "\<exists>R. discoverDevices localeCompare (Fulfilled A) (Fulfilled B) = Fulfilled R
     \<and> distinct (map ip R)
     \<and> set (map ip R) = set (map ip A) \<union> set (map ip B)
     \<and> (distinct (map ip A) \<and> distinct (map ip B) \<longrightarrow>
          (\<forall>a\<in>set A. ip a \<notin> set (map ip B) \<longrightarrow> a \<in> set R)
        \<and> (\<forall>b\<in>set B. ip b \<notin> set (map ip A) \<longrightarrow> b \<in> set R)
        \<and> (\<forall>a\<in>set A. \<forall>b\<in>set B. ip a = ip b \<longrightarrow>
             (\<exists>d\<in>set R. ip d = ip b \<and> name d = name b \<and> modelName d = modelName b
                \<and> serialNumber d = serialNumber b
                \<and> softwareVersion d =
                    (case softwareVersion b of Some v \<Rightarrow> Some v | None \<Rightarrow> softwareVersion a)
                \<and> deviceType d =
                    (case deviceType b of Some v \<Rightarrow> Some v | None \<Rightarrow> deviceType a))))"
proof -
  define M1 where "M1 = foldl addSsdpDevice [] A"
  define M2 where "M2 = foldl addNetworkDevice M1 B"
  define R where "R = sortBy (\<lambda>a b. localeCompare (name a) (name b)) (map snd M2)"
  have res: "discoverDevices localeCompare (Fulfilled A) (Fulfilled B) = Fulfilled R"
    by (simp add: discoverDevices_Fulfilled R_def M2_def M1_def)
  have ips: "map ip (map snd M2) = map fst M2"
    unfolding M2_def M1_def by (rule merged_ips)
  have dist: "distinct (map ip R)"
    unfolding R_def distinct_map_sortBy ips
    unfolding M2_def M1_def by (intro distinct_addNetwork distinct_addSsdp) simp
  have "set (map ip R) = set (map ip (map snd M2))"
    using mset_map_sortBy [of ip "\<lambda>a b. localeCompare (name a) (name b)" "map snd M2"]
    unfolding R_def by (metis set_mset_mset)
  also have "\<dots> = fst ` set M2" unfolding ips by simp
  also have "\<dots> = set (map ip A) \<union> set (map ip B)"
    unfolding M2_def M1_def by (simp add: keys_addNetwork keys_addSsdp)
  finally have union: "set (map ip R) = set (map ip A) \<union> set (map ip B)" .
  have setR: "set R = set (map snd M2)"
    unfolding R_def by (rule set_sortBy)
  have per: "(\<forall>a\<in>set A. ip a \<notin> set (map ip B) \<longrightarrow> a \<in> set R)
        \<and> (\<forall>b\<in>set B. ip b \<notin> set (map ip A) \<longrightarrow> b \<in> set R)
        \<and> (\<forall>a\<in>set A. \<forall>b\<in>set B. ip a = ip b \<longrightarrow>
             (\<exists>d\<in>set R. ip d = ip b \<and> name d = name b \<and> modelName d = modelName b
                \<and> serialNumber d = serialNumber b
                \<and> softwareVersion d =
                    (case softwareVersion b of Some v \<Rightarrow> Some v | None \<Rightarrow> softwareVersion a)
                \<and> deviceType d =
                    (case deviceType b of Some v \<Rightarrow> Some v | None \<Rightarrow> deviceType a)))"
    if dA: "distinct (map ip A)" and dB: "distinct (map ip B)"
  proof (intro conjI ballI impI)
    fix a assume a: "a \<in> set A" and nb: "ip a \<notin> set (map ip B)"
    have "map_of M2 (ip a) = map_of M1 (ip a)"
      unfolding M2_def using nb by (simp add: lookup_addNetwork_other)
    also have "\<dots> = Some a"
      unfolding M1_def by (rule lookup_addSsdp [OF dA a])
    finally show "a \<in> set R" unfolding setR by (rule values_of_lookup)
  next
    fix b assume b: "b \<in> set B" and na: "ip b \<notin> set (map ip A)"
    have "map_of M1 (ip b) = None"
      unfolding M1_def using na by (simp add: lookup_addSsdp_other)
    then have "map_of M2 (ip b) = Some b"
      unfolding M2_def using lookup_addNetwork [OF dB b, of M1] by simp
    then show "b \<in> set R" unfolding setR by (rule values_of_lookup)
  next
    fix a b assume a: "a \<in> set A" and b: "b \<in> set B" and eq: "ip a = ip b"
    have "map_of M1 (ip b) = Some a"
      unfolding M1_def using lookup_addSsdp [OF dA a] eq by simp
    then have "map_of M2 (ip b) = Some (spread a b)"
      unfolding M2_def using lookup_addNetwork [OF dB b, of M1] by simp
    then have "spread a b \<in> set R" unfolding setR by (rule values_of_lookup)
    then show "\<exists>d\<in>set R. ip d = ip b \<and> name d = name b \<and> modelName d = modelName b
                \<and> serialNumber d = serialNumber b
                \<and> softwareVersion d =
                    (case softwareVersion b of Some v \<Rightarrow> Some v | None \<Rightarrow> softwareVersion a)
                \<and> deviceType d =
                    (case deviceType b of Some v \<Rightarrow> Some v | None \<Rightarrow> deviceType a)"
      by (rule bexI [rotated]) (simp add: spread_def)
  qed
  from res dist union per show ?thesis by blast
qed

text \<open>
  An instance: the multicast probe finds the bedroom and the kitchen device, the scan
  finds the bedroom device under another name and without a software version.
\<close>

theorem discoverDevices_merge_witness:
  "distinct (map ip [bedroom, kitchen]) \<and> distinct (map ip [bedroomScan])
   \<and> bedroom \<in> set [bedroom, kitchen] \<and> bedroomScan \<in> set [bedroomScan]
   \<and> ip bedroom = ip bedroomScan
   \<and> (\<exists>R. discoverDevices localeCompareLetters (Fulfilled [bedroom, kitchen])
              (Fulfilled [bedroomScan]) = Fulfilled R
          \<and> set (map ip R) = {''192.168.1.20'', ''192.168.1.21''}
          \<and> kitchen \<in> set R
          \<and> (\<exists>d\<in>set R. ip d = ''192.168.1.20'' \<and> name d = ''Bedroom TV''
                \<and> softwareVersion d = Some ''11.5'' \<and> deviceType d = Some ''tv''))"
proof -
  have dA: "distinct (map ip [bedroom, kitchen])" and dB: "distinct (map ip [bedroomScan])"
    by (simp_all add: bedroom_def kitchen_def)
  have same: "ip bedroom = ip bedroomScan"
    by (simp add: bedroom_def bedroomScan_def)
  have other: "ip kitchen \<notin> set (map ip [bedroomScan])"
    by (simp add: kitchen_def bedroomScan_def)
  from discoverDevices_merge [of localeCompareLetters "[bedroom, kitchen]" "[bedroomScan]"]
  obtain R where res: "discoverDevices localeCompareLetters (Fulfilled [bedroom, kitchen])
              (Fulfilled [bedroomScan]) = Fulfilled R"
    and ips: "set (map ip R) = set (map ip [bedroom, kitchen]) \<union> set (map ip [bedroomScan])"
    and onlyA: "\<forall>a\<in>set [bedroom, kitchen]. ip a \<notin> set (map ip [bedroomScan]) \<longrightarrow> a \<in> set R"
    and both: "\<forall>a\<in>set [bedroom, kitchen]. \<forall>b\<in>set [bedroomScan]. ip a = ip b \<longrightarrow>
             (\<exists>d\<in>set R. ip d = ip b \<and> name d = name b \<and> modelName d = modelName b
                \<and> serialNumber d = serialNumber b
                \<and> softwareVersion d =
                    (case softwareVersion b of Some v \<Rightarrow> Some v | None \<Rightarrow> softwareVersion a)
                \<and> deviceType d =
                    (case deviceType b of Some v \<Rightarrow> Some v | None \<Rightarrow> deviceType a))"
    using dA dB by blast
  from onlyA other have k: "kitchen \<in> set R" by simp
  from both same obtain d where "d \<in> set R" and "ip d = ip bedroomScan"
    and "name d = name bedroomScan"
    and "softwareVersion d =
       (case softwareVersion bedroomScan of Some v \<Rightarrow> Some v | None \<Rightarrow> softwareVersion bedroom)"
    and "deviceType d =
       (case deviceType bedroomScan of Some v \<Rightarrow> Some v | None \<Rightarrow> deviceType bedroom)"
    by auto
  then have d: "\<exists>d\<in>set R. ip d = ''192.168.1.20'' \<and> name d = ''Bedroom TV''
                \<and> softwareVersion d = Some ''11.5'' \<and> deviceType d = Some ''tv''"
    by (auto simp: bedroom_def bedroomScan_def)
  from ips have ips': "set (map ip R) = {''192.168.1.20'', ''192.168.1.21''}"
    by (simp add: bedroom_def kitchen_def bedroomScan_def)
  from dA dB same res ips' k d show ?thesis by auto
qed

text \<open>
  Claim C2. However the two strategies settle, \<^verbatim>\<open>discoverDevices\<close> is fulfilled, and with
  the devices of exactly the addresses that the fulfilled strategies report; when both
  are rejected it is fulfilled with the empty list. The strategies themselves do not
  reject either: \<^verbatim>\<open>discoverViaSsdp\<close> never settles as rejected, and
  \<^verbatim>\<open>discoverViaNetworkScan\<close> is fulfilled whatever its probes do, with the empty list when
  every probe fails.
\<close>

theorem discoverDevices_never_rejects:
  "(\<exists>R. discoverDevices localeCompare ssdpDevices networkDevices = Fulfilled R
        \<and> set (map ip R) = foundIps ssdpDevices \<union> foundIps networkDevices)
   \<and> discoverDevices localeCompare (Rejected e1) (Rejected e2) = Fulfilled []
   \<and> discoverViaSsdp matchLocation getDeviceInfo searchSent events \<noteq> Some (Rejected e3)
   \<and> (\<exists>found. discoverViaNetworkScan ranges probe = Fulfilled found)
   \<and> discoverViaNetworkScan ranges (\<lambda>a. Rejected e4) = Fulfilled []"
proof (intro conjI)
  show "\<exists>R. discoverDevices localeCompare ssdpDevices networkDevices = Fulfilled R
        \<and> set (map ip R) = foundIps ssdpDevices \<union> foundIps networkDevices"
    by (rule discoverDevices_ips)
next
  show "discoverDevices localeCompare (Rejected e1) (Rejected e2) = Fulfilled []"
    by (simp add: discoverDevices_def sortBy_Nil)
next
  show "discoverViaSsdp matchLocation getDeviceInfo searchSent events \<noteq> Some (Rejected e3)"
    by (simp add: discoverViaSsdp_def)
next
  show "\<exists>found. discoverViaNetworkScan ranges probe = Fulfilled found"
    by (simp add: discoverViaNetworkScan_def)
next
  show "discoverViaNetworkScan ranges (\<lambda>a. Rejected e4) = Fulfilled []"
    by (simp add: discoverViaNetworkScan_def collectChunk_all_rejected)
qed

text \<open>
  Claim C4 fails on the code. The first loop of \<^verbatim>\<open>discoverViaNetworkScan\<close> calls
  \<^verbatim>\<open>checkIfRokuDevice\<close> for every address before the first \<^verbatim>\<open>await\<close>: when it ends, 254
  requests for each network range are outstanding and none has settled; there are at
  least five ranges, so 1270 requests or more. The chunks of 50 bound only how many
  results are awaited together.
\<close>

theorem scan_starts_every_probe_before_first_await:
  "outstanding (dispatchLoop (getNetworkRanges interfaces))
     = 254 * length (getNetworkRanges interfaces)
   \<and> 5 \<le> length (getNetworkRanges interfaces)
   \<and> prefix (dispatchLoop (getNetworkRanges interfaces)) (scanTrace (getNetworkRanges interfaces))
   \<and> getNetworkRanges [] = commonRanges
   \<and> outstanding (dispatchLoop (getNetworkRanges [])) = 1270"
  by (simp add: outstanding_dispatchLoop length_getNetworkRanges scanTrace_def)
     (simp add: getNetworkRanges_def commonRanges_def)

text \<open>
  Claim C5, as amended. The list that \<^verbatim>\<open>discoverDevices\<close> returns is sorted by display
  name in the order of \<^verbatim>\<open>localeCompare\<close>, for every \<^verbatim>\<open>localeCompare\<close> that is a consistent
  comparator: a device never stands before one whose name compares smaller.
\<close>

theorem discoverDevices_sorted_by_localeCompare:
  assumes "consistentComparator localeCompare"
  shows "\<exists>R. discoverDevices localeCompare ssdpDevices networkDevices = Fulfilled R
           \<and> sorted_wrt (\<lambda>d1 d2. localeCompare (name d1) (name d2) \<le> 0) R"
proof -
  obtain M where "discoverDevices localeCompare ssdpDevices networkDevices
      = Fulfilled (sortBy (\<lambda>a b. localeCompare (name a) (name b)) M)"
    using discoverDevices_result by blast
  moreover have "sorted_wrt (\<lambda>d1 d2. localeCompare (name d1) (name d2) \<le> 0)
      (sortBy (\<lambda>a b. localeCompare (name a) (name b)) M)"
    by (rule sorted_sortBy [OF consistent_on_names [OF assms]])
  ultimately show ?thesis by blast
qed

text \<open>An instance, with the collation of words of letters.\<close>

theorem discoverDevices_sorted_witness:
  "consistentComparator localeCompareLetters
   \<and> (\<exists>R. discoverDevices localeCompareLetters (Fulfilled [kitchen]) (Fulfilled [bedroom]) = Fulfilled R
          \<and> sorted_wrt (\<lambda>d1 d2. localeCompareLetters (name d1) (name d2) \<le> 0) R)"
  using discoverDevices_sorted_by_localeCompare [OF consistent_localeCompareLetters]
    consistent_localeCompareLetters by blast

text \<open>
  The order is not the order of the code points: \<^verbatim>\<open>bedroom\<close> is returned before
  \<^verbatim>\<open>Kitchen\<close>, whose capital \<^verbatim>\<open>K\<close> has the smaller code point.
\<close>

theorem discoverDevices_not_code_point_sorted:
  "discoverDevices localeCompareLetters (Fulfilled [kitchen]) (Fulfilled [bedroom])
     = Fulfilled [bedroom, kitchen]
   \<and> \<not> codePointLe (name bedroom) (name kitchen)"
  by (simp add: discoverDevices_def addSsdpDevice_def addNetworkDevice_def sortBy_def
      bedroom_def kitchen_def localeCompareLetters_def collationKey_def toLower_def isUpper_def
      codePointLe_def)

section \<open>The credential test: the claim\<close>

text \<open>
  Claim C3 fails on the code. The request of \<^verbatim>\<open>testConnection\<close> carries no credentials
  and goes to the control protocol on port 8060, so the answer does not depend on the
  password: a device whose developer password is \<^verbatim>\<open>secret\<close> passes the test with the
  password \<^verbatim>\<open>wrong\<close>, and rejects the request of \<^verbatim>\<open>createPackage\<close> made with it.
\<close>

theorem testConnection_sends_no_credentials:
  "auth (testConnectionRequest (newRokuAPI ''192.168.1.50'' ''wrong'')) = None
   \<and> testConnection (developerDevice ''192.168.1.50'' ''secret'')
        (newRokuAPI ''192.168.1.50'' ''wrong'') = True
   \<and> developerDevice ''192.168.1.50'' ''secret''
        (createPackageRequest (newRokuAPI ''192.168.1.50'' ''wrong'')) = Response 401
   \<and> testConnection http (newRokuAPI host secret1) = testConnection http (newRokuAPI host secret2)"
  by (simp add: testConnection_def testConnectionRequest_def newRokuAPI_def developerDevice_def
      createPackageRequest_def)

section \<open>The build task runner: the claim\<close>

text \<open>
  Claim C6 fails on the code. A task ended by the timeout is rejected with the message
  of a task that any signal ended, which does not contain \<^verbatim>\<open>timed out\<close>, so the caller
  prints no advice about timeouts. And when the child is still running five seconds
  after \<^verbatim>\<open>SIGTERM\<close>, no \<^verbatim>\<open>SIGKILL\<close> follows, since sending \<^verbatim>\<open>SIGTERM\<close> has set
  \<^verbatim>\<open>child.killed\<close>; the promise stays pending.
\<close>

theorem executeTask_timeout_not_reported:
  "outcome (executeTask buildTask (Some 300000) [TimeoutElapsed, Close None])
     = Some (Rejected (''Task '' @ [CHR 0x22] @ ''build'' @ [CHR 0x22] @ '' was terminated''))
   \<and> outcome (executeTask buildTask (Some 300000) [Close None])
     = outcome (executeTask buildTask (Some 300000) [TimeoutElapsed, Close None])
   \<and> printsTimeoutTips
        (the (outcome (executeTask buildTask (Some 300000) [TimeoutElapsed, Close None]))) = False
   \<and> signals (executeTask buildTask (Some 300000) [TimeoutElapsed, GraceElapsed]) = [SIGTERM]
   \<and> exited (executeTask buildTask (Some 300000) [TimeoutElapsed, GraceElapsed]) = False
   \<and> outcome (executeTask buildTask (Some 300000) [TimeoutElapsed, GraceElapsed]) = None"
  by (simp add: executeTask_def buildTask_def resolveCommand_def truthy_def kill_def settle_def
      closeResult_def printsTimeoutTips_def)

section \<open>The generate command: the claims\<close>







text \<open>
  Claim C8. \<^verbatim>\<open>validateProject\<close> reports every required item that is missing and does not
  stop at the first: a missing manifest is reported whatever else is missing, and so is
  a missing source directory, and a missing entry point inside a source directory.
  When the manifest and the source directory are both absent the result is invalid and
  lists both. The result is valid exactly when the list of errors is empty, which is
  exactly when the manifest, the source directory and the entry point exist.
\<close>

theorem validateProject_collects_every_missing_item:
  "(valid (validateProject join existsSync rootDir)
      \<longleftrightarrow> errors (validateProject join existsSync rootDir) = [])
   \<and> (valid (validateProject join existsSync rootDir)
      \<longleftrightarrow> existsSync (join rootDir ''manifest'') \<and> existsSync (join rootDir ''source'')
          \<and> existsSync (join (join rootDir ''source'') ''main.brs''))
   \<and> (\<not> existsSync (join rootDir ''manifest'') \<longrightarrow>
        ''Missing required file: manifest'' \<in> set (errors (validateProject join existsSync rootDir)))
   \<and> (\<not> existsSync (join rootDir ''source'') \<longrightarrow>
        ''Missing required directory: source''
          \<in> set (errors (validateProject join existsSync rootDir)))
   \<and> (existsSync (join rootDir ''source'')
        \<and> \<not> existsSync (join (join rootDir ''source'') ''main.brs'') \<longrightarrow>
        ''Missing required file: source/main.brs''
          \<in> set (errors (validateProject join existsSync rootDir)))
   \<and> (\<not> existsSync (join rootDir ''manifest'') \<and> \<not> existsSync (join rootDir ''source'') \<longrightarrow>
        \<not> valid (validateProject join existsSync rootDir)
        \<and> errors (validateProject join existsSync rootDir)
            = [''Missing required file: manifest'', ''Missing required directory: source''])"
  by (simp add: validateProject_def Let_def)

text \<open>An instance: an empty build directory, and one that holds only the source directory.\<close>

theorem validateProject_collects_witness:
  "\<not> existsIn [] (joinPosix ''/app/build'' ''manifest'')
   \<and> \<not> existsIn [] (joinPosix ''/app/build'' ''source'')
   \<and> \<not> valid (validateProject joinPosix (existsIn []) ''/app/build'')
   \<and> errors (validateProject joinPosix (existsIn []) ''/app/build'')
        = [''Missing required file: manifest'', ''Missing required directory: source'']
   \<and> existsIn [''/app/build/source''] (joinPosix ''/app/build'' ''source'')
   \<and> \<not> existsIn [''/app/build/source''] (joinPosix (joinPosix ''/app/build'' ''source'') ''main.brs'')
   \<and> ''Missing required file: source/main.brs''
        \<in> set (errors (validateProject joinPosix (existsIn [''/app/build/source'']) ''/app/build''))"
  using validateProject_collects_every_missing_item [of joinPosix "existsIn []" "''/app/build''"]
    validateProject_collects_every_missing_item
      [of joinPosix "existsIn [''/app/build/source'']" "''/app/build''"]
  by (simp add: joinPosix_def existsIn_def)

text \<open>
  Where the package and the output path name two different files, the relocation does
  what its comments say: the package is copied to the output path, and the original is
  removed exactly when the two directory names differ; a package path that is the
  output path, letter for letter, changes nothing.
\<close>

lemma relocate_between_distinct_files:
  "relocate dirname resolve now files outputLocation outputLocation = Inr (files, outputLocation)
   \<and> (packagePath \<noteq> [] \<and> resolve packagePath \<noteq> resolve outputLocation
        \<and> files (resolve packagePath) = Some f \<longrightarrow>
        (\<exists>files'. relocate dirname resolve now files packagePath outputLocation
                     = Inr (files', outputLocation)
           \<and> files' (resolve outputLocation) = Some \<lparr> content = content f, mtime = now \<rparr>
           \<and> (files' (resolve packagePath) = None
                \<longleftrightarrow> dirname packagePath \<noteq> dirname outputLocation)
           \<and> (dirname packagePath = dirname outputLocation \<longrightarrow>
                files' (resolve packagePath) = Some f)
           \<and> (\<forall>q. q \<noteq> resolve outputLocation \<and> q \<noteq> resolve packagePath \<longrightarrow>
                files' q = files q)))"
  by (auto simp: relocate_def copyFileSync_def unlinkSync_def)

text \<open>The package staged under \<^verbatim>\<open>/tmp/staged\<close> is moved to \<^verbatim>\<open>/out\<close>.\<close>

lemma relocate_staged_package:
  "''/tmp/staged/demo.pkg'' \<noteq> []
   \<and> resolveFrom ''/work'' ''/tmp/staged/demo.pkg'' \<noteq> resolveFrom ''/work'' ''/out/demo.pkg''
   \<and> stagedFiles (resolveFrom ''/work'' ''/tmp/staged/demo.pkg'')
       = Some \<lparr> content = ''signed'', mtime = 7 \<rparr>
   \<and> posixDirname ''/tmp/staged/demo.pkg'' \<noteq> posixDirname ''/out/demo.pkg''
   \<and> (\<exists>files'. relocate posixDirname (resolveFrom ''/work'') 9 stagedFiles
                  ''/tmp/staged/demo.pkg'' ''/out/demo.pkg'' = Inr (files', ''/out/demo.pkg'')
          \<and> files' (resolveFrom ''/work'' ''/out/demo.pkg'')
              = Some \<lparr> content = ''signed'', mtime = 9 \<rparr>
          \<and> files' (resolveFrom ''/work'' ''/tmp/staged/demo.pkg'') = None)"
proof -
  have a: "''/tmp/staged/demo.pkg'' \<noteq> []
     \<and> resolveFrom ''/work'' ''/tmp/staged/demo.pkg'' \<noteq> resolveFrom ''/work'' ''/out/demo.pkg''
     \<and> stagedFiles (resolveFrom ''/work'' ''/tmp/staged/demo.pkg'')
         = Some \<lparr> content = ''signed'', mtime = 7 \<rparr>"
    by (simp add: stagedFiles_def resolveFrom_def)
  have d: "posixDirname ''/tmp/staged/demo.pkg'' \<noteq> posixDirname ''/out/demo.pkg''"
    by (simp add: posixDirname_def)
  from relocate_between_distinct_files [of posixDirname "resolveFrom ''/work''" 9 stagedFiles
      "''/out/demo.pkg''" "''/tmp/staged/demo.pkg''" "\<lparr> content = ''signed'', mtime = 7 \<rparr>"] a d
  have "\<exists>files'. relocate posixDirname (resolveFrom ''/work'') 9 stagedFiles
                  ''/tmp/staged/demo.pkg'' ''/out/demo.pkg'' = Inr (files', ''/out/demo.pkg'')
          \<and> files' (resolveFrom ''/work'' ''/out/demo.pkg'')
              = Some \<lparr> content = ''signed'', mtime = 9 \<rparr>
          \<and> files' (resolveFrom ''/work'' ''/tmp/staged/demo.pkg'') = None"
    by auto
  with a d show ?thesis by blast
qed

text \<open>
  Claim C9 fails on the code. The relocation compares the two paths, and their
  directory names, as strings. With the output path \<^verbatim>\<open>./out/demo.pkg\<close> and the package at
  \<^verbatim>\<open>out/demo.pkg\<close> (or at \<^verbatim>\<open>/work/out/demo.pkg\<close>, in the directory \<^verbatim>\<open>/work\<close>), the
  artifact is already at the output path; the strings differ, so the file is copied
  onto itself, the directory names differ, so it is deleted, and nothing is left at the
  output path: the command ends in its \<^verbatim>\<open>catch\<close> instead of \<^verbatim>\<open>process.exit(0)\<close>.
\<close>

theorem relocate_deletes_artifact_at_output:
  "resolveFrom ''/work'' ''out/demo.pkg'' = resolveFrom ''/work'' ''./out/demo.pkg''
   \<and> packagedFiles (resolveFrom ''/work'' ''./out/demo.pkg'')
       = Some \<lparr> content = ''signed'', mtime = 7 \<rparr>
   \<and> posixDirname ''out/demo.pkg'' = ''out'' \<and> posixDirname ''./out/demo.pkg'' = ''./out''
   \<and> relocate posixDirname (resolveFrom ''/work'') 9 packagedFiles ''out/demo.pkg''
        ''./out/demo.pkg'' = Inr (Map.empty, ''./out/demo.pkg'')
   \<and> relocate posixDirname (resolveFrom ''/work'') 9 packagedFiles ''/work/out/demo.pkg''
        ''./out/demo.pkg'' = Inr (Map.empty, ''./out/demo.pkg'')
   \<and> deployAndRelocate posixDirname (resolveFrom ''/work'') 9 packagedFiles ''./out/demo.pkg''
        True True False None False (Fulfilled ''out/demo.pkg'') = (ActionReturned, Map.empty)"
  by (simp add: relocate_def copyFileSync_def unlinkSync_def resolveFrom_def posixDirname_def
      packagedFiles_def deployAndRelocate_def deployStage_def)

text \<open>
  Claim C10. When the source directory is absent the errors do not contain the missing
  entry point; the error of the missing source directory and the error of the missing
  entry point never appear together.
\<close>

theorem validateProject_entry_point_masked:
  "(\<not> existsSync (join rootDir ''source'') \<longrightarrow>
      ''Missing required file: source/main.brs''
        \<notin> set (errors (validateProject join existsSync rootDir)))
   \<and> \<not> (''Missing required directory: source''
            \<in> set (errors (validateProject join existsSync rootDir))
        \<and> ''Missing required file: source/main.brs''
            \<in> set (errors (validateProject join existsSync rootDir)))"
  by (simp add: validateProject_def Let_def)

text \<open>An instance: a build directory that holds only the manifest.\<close>

theorem validateProject_entry_point_masked_witness:
  "\<not> existsIn [''/app/build/manifest''] (joinPosix ''/app/build'' ''source'')
   \<and> \<not> existsIn [''/app/build/manifest'']
         (joinPosix (joinPosix ''/app/build'' ''source'') ''main.brs'')
   \<and> ''Missing required file: source/main.brs''
        \<notin> set (errors (validateProject joinPosix (existsIn [''/app/build/manifest''])
                    ''/app/build''))
   \<and> ''Missing required directory: source''
        \<in> set (errors (validateProject joinPosix (existsIn [''/app/build/manifest''])
                    ''/app/build''))"
  using validateProject_entry_point_masked
      [of "existsIn [''/app/build/manifest'']" joinPosix "''/app/build''"]
  by (simp add: joinPosix_def existsIn_def validateProject_def)

end
